theory Spec2Isabelle
  imports Main "HOL-Library.Word"
begin

unbundle bit_operations_syntax

section \<open>The x86-64 page-table level operations of Jailhouse\<close>

text \<open>
  This theory embeds \<^verbatim>\<open>hypervisor/arch/x86/paging.c\<close>: the per-level operations of the
  4-level x86-64 paging format and the descriptor array \<^verbatim>\<open>x86_64_paging\<close> built from them.

  \<^item> \<^verbatim>\<open>unsigned long\<close> and \<^verbatim>\<open>u64\<close> are 64-bit words.
  \<^item> \<^verbatim>\<open>pt_entry_t\<close> and \<^verbatim>\<open>page_table_t\<close> are pointers to 64-bit entries. A pointer is
    the byte address it holds (a 64-bit word), and memory is an explicit store from the
    address of an entry to its contents: \<^verbatim>\<open>*pte\<close> is \<open>mem pte\<close>, \<^verbatim>\<open>*pte = x\<close> returns
    \<open>mem(pte := x)\<close>, \<^verbatim>\<open>&page_table[i]\<close> is \<open>page_table + 8 * i\<close> and \<^verbatim>\<open>pte++\<close> is
    \<open>pte + 8\<close>.
  \<^item> Three macros used by the file come from headers outside it. \<^verbatim>\<open>PAGE_SIZE\<close> is fixed
    below; \<^verbatim>\<open>PAGE_DEFAULT_FLAGS\<close> and \<^verbatim>\<open>INVALID_PHYS_ADDR\<close> are parameters of the functions
    that use them, so that every theorem states what it needs of them.
\<close>

type_synonym u64 = "64 word"

type_synonym memory = "u64 \<Rightarrow> u64"

subsection \<open>Constants\<close>

text \<open>\<^verbatim>\<open>#define X86_64_FLAG_HUGEPAGE 0x80\<close>\<close>

definition X86_64_FLAG_HUGEPAGE :: u64 where
  "X86_64_FLAG_HUGEPAGE = 0x80"

text \<open>
  Modelled from the spec: the macro \<^verbatim>\<open>PAGE_SIZE\<close> of \<^verbatim>\<open>asm/paging.h\<close>, which is not among
  the sources. The specification fixes the leaf page and every table page at 4 KiB
  (``4 KiB leaf'', ``page-aligned physical address (4 KiB granularity)'').
\<close>

definition PAGE_SIZE :: nat where
  "PAGE_SIZE = 4096"

subsection \<open>Operations common to all levels\<close>

text \<open>\<^verbatim>\<open>return *pte & 1;\<close> converted to \<^verbatim>\<open>bool\<close>: true iff the value is non-zero.\<close>

definition x86_64_entry_valid :: "memory \<Rightarrow> u64 \<Rightarrow> bool" where
  "x86_64_entry_valid mem pte = (mem pte AND 1 \<noteq> 0)"

definition x86_64_get_flags :: "memory \<Rightarrow> u64 \<Rightarrow> u64" where
  "x86_64_get_flags mem pte = mem pte AND 0x7f"

text \<open>The first argument stands for the macro \<^verbatim>\<open>PAGE_DEFAULT_FLAGS\<close>.\<close>

definition x86_64_set_next_pt :: "u64 \<Rightarrow> memory \<Rightarrow> u64 \<Rightarrow> u64 \<Rightarrow> memory" where
  "x86_64_set_next_pt PAGE_DEFAULT_FLAGS mem pte next_pt =
     mem(pte := (next_pt AND 0x000ffffffffff000) OR PAGE_DEFAULT_FLAGS)"

definition x86_64_clear_entry :: "memory \<Rightarrow> u64 \<Rightarrow> memory" where
  "x86_64_clear_entry mem pte = mem(pte := 0)"

text \<open>
  The loop of \<^verbatim>\<open>x86_64_page_table_empty\<close>, with its two variables \<^verbatim>\<open>n\<close> and \<^verbatim>\<open>pte\<close>:
  \<^verbatim>\<open>for (n = 0, pte = page_table; n < PAGE_SIZE / sizeof(u64); n++, pte++)\<close>.
\<close>

function page_table_empty_loop :: "memory \<Rightarrow> nat \<Rightarrow> u64 \<Rightarrow> bool" where
  "page_table_empty_loop mem n pte =
     (if n < PAGE_SIZE div 8 then
        (if x86_64_entry_valid mem pte then False
         else page_table_empty_loop mem (Suc n) (pte + 8))
      else True)"
  by pat_completeness auto
termination
  by (relation "measure (\<lambda>(mem, n, pte). PAGE_SIZE div 8 - n)") auto

definition x86_64_page_table_empty :: "memory \<Rightarrow> u64 \<Rightarrow> bool" where
  "x86_64_page_table_empty mem page_table = page_table_empty_loop mem 0 page_table"

subsection \<open>Entry selection\<close>

definition x86_64_get_entry_l4 :: "u64 \<Rightarrow> u64 \<Rightarrow> u64" where
  "x86_64_get_entry_l4 page_table virt = page_table + 8 * (drop_bit 39 virt AND 0x1ff)"

definition x86_64_get_entry_l3 :: "u64 \<Rightarrow> u64 \<Rightarrow> u64" where
  "x86_64_get_entry_l3 page_table virt = page_table + 8 * (drop_bit 30 virt AND 0x1ff)"

definition x86_64_get_entry_l2 :: "u64 \<Rightarrow> u64 \<Rightarrow> u64" where
  "x86_64_get_entry_l2 page_table virt = page_table + 8 * (drop_bit 21 virt AND 0x1ff)"

definition x86_64_get_entry_l1 :: "u64 \<Rightarrow> u64 \<Rightarrow> u64" where
  "x86_64_get_entry_l1 page_table virt = page_table + 8 * (drop_bit 12 virt AND 0x1ff)"

subsection \<open>Terminal entries and physical addresses\<close>

definition x86_64_set_terminal_l1 :: "memory \<Rightarrow> u64 \<Rightarrow> u64 \<Rightarrow> u64 \<Rightarrow> memory" where
  "x86_64_set_terminal_l1 mem pte phys flags =
     mem(pte := (phys AND 0x000ffffffffff000) OR flags)"

text \<open>The first argument of the next two stands for the macro \<^verbatim>\<open>INVALID_PHYS_ADDR\<close>.\<close>

definition x86_64_get_phys_l3 :: "u64 \<Rightarrow> memory \<Rightarrow> u64 \<Rightarrow> u64 \<Rightarrow> u64" where
  "x86_64_get_phys_l3 INVALID_PHYS_ADDR mem pte virt =
     (if mem pte AND X86_64_FLAG_HUGEPAGE = 0 then INVALID_PHYS_ADDR
      else (mem pte AND 0x000fffffc0000000) OR (virt AND 0x000000003fffffff))"

definition x86_64_get_phys_l2 :: "u64 \<Rightarrow> memory \<Rightarrow> u64 \<Rightarrow> u64 \<Rightarrow> u64" where
  "x86_64_get_phys_l2 INVALID_PHYS_ADDR mem pte virt =
     (if mem pte AND X86_64_FLAG_HUGEPAGE = 0 then INVALID_PHYS_ADDR
      else (mem pte AND 0x000fffffffe00000) OR (virt AND 0x00000000001fffff))"

definition x86_64_get_phys_l1 :: "memory \<Rightarrow> u64 \<Rightarrow> u64 \<Rightarrow> u64" where
  "x86_64_get_phys_l1 mem pte virt =
     (mem pte AND 0x000ffffffffff000) OR (virt AND 0x0000000000000fff)"

text \<open>
  Modelled from the spec: the function \<^verbatim>\<open>page_map_get_phys_invalid\<close> of the generic
  \<^verbatim>\<open>hypervisor/paging.c\<close>, which is not among the sources; the root level of the array
  below installs it as \<^verbatim>\<open>get_phys\<close>. The specification: ``the root level exposes no
  \<^verbatim>\<open>get_phys\<close> (always invalid)'' and ``at the root level \<^verbatim>\<open>get_phys\<close> always returns
  invalid''. The first argument stands for the macro \<^verbatim>\<open>INVALID_PHYS_ADDR\<close>.
\<close>

definition page_map_get_phys_invalid :: "u64 \<Rightarrow> memory \<Rightarrow> u64 \<Rightarrow> u64 \<Rightarrow> u64" where
  "page_map_get_phys_invalid INVALID_PHYS_ADDR mem pte virt = INVALID_PHYS_ADDR"

subsection \<open>Following a non-terminal entry\<close>

definition x86_64_get_next_pt_l4 :: "memory \<Rightarrow> u64 \<Rightarrow> u64" where
  "x86_64_get_next_pt_l4 mem pte = mem pte AND 0x000ffffffffff000"

definition x86_64_get_next_pt_l23 :: "memory \<Rightarrow> u64 \<Rightarrow> u64" where
  "x86_64_get_next_pt_l23 mem pte = mem pte AND 0x000ffffffffff000"

subsection \<open>The level descriptors\<close>

text \<open>
  \<^verbatim>\<open>struct paging\<close> is declared in \<^verbatim>\<open>jailhouse/paging.h\<close>; its members are those the
  designated initialisers of \<^verbatim>\<open>x86_64_paging\<close> name. A member that an initialiser leaves
  out is zero in C: a null function pointer is \<open>None\<close>, a \<^verbatim>\<open>page_size\<close> left out is 0.
\<close>

record paging =
  page_size :: nat
  get_entry :: "(u64 \<Rightarrow> u64 \<Rightarrow> u64) option"
  entry_valid :: "(memory \<Rightarrow> u64 \<Rightarrow> bool) option"
  set_terminal :: "(memory \<Rightarrow> u64 \<Rightarrow> u64 \<Rightarrow> u64 \<Rightarrow> memory) option"
  get_phys :: "(memory \<Rightarrow> u64 \<Rightarrow> u64 \<Rightarrow> u64) option"
  get_flags :: "(memory \<Rightarrow> u64 \<Rightarrow> u64) option"
  set_next_pt :: "(memory \<Rightarrow> u64 \<Rightarrow> u64 \<Rightarrow> memory) option"
  get_next_pt :: "(memory \<Rightarrow> u64 \<Rightarrow> u64) option"
  clear_entry :: "(memory \<Rightarrow> u64 \<Rightarrow> memory) option"
  page_table_empty :: "(memory \<Rightarrow> u64 \<Rightarrow> bool) option"

text \<open>
  \<^verbatim>\<open>const struct paging x86_64_paging[]\<close>, root level first. The members of
  \<^verbatim>\<open>X86_64_PAGING_COMMON\<close> are the same in all four elements.
\<close>

definition x86_64_paging :: "u64 \<Rightarrow> u64 \<Rightarrow> paging list" where
  "x86_64_paging PAGE_DEFAULT_FLAGS INVALID_PHYS_ADDR =
   [\<lparr> page_size = 0,
      get_entry = Some x86_64_get_entry_l4,
      entry_valid = Some x86_64_entry_valid,
      set_terminal = None,
      get_phys = Some (page_map_get_phys_invalid INVALID_PHYS_ADDR),
      get_flags = Some x86_64_get_flags,
      set_next_pt = Some (x86_64_set_next_pt PAGE_DEFAULT_FLAGS),
      get_next_pt = Some x86_64_get_next_pt_l4,
      clear_entry = Some x86_64_clear_entry,
      page_table_empty = Some x86_64_page_table_empty \<rparr>,
    \<lparr> page_size = 0,
      get_entry = Some x86_64_get_entry_l3,
      entry_valid = Some x86_64_entry_valid,
      set_terminal = None,
      get_phys = Some (x86_64_get_phys_l3 INVALID_PHYS_ADDR),
      get_flags = Some x86_64_get_flags,
      set_next_pt = Some (x86_64_set_next_pt PAGE_DEFAULT_FLAGS),
      get_next_pt = Some x86_64_get_next_pt_l23,
      clear_entry = Some x86_64_clear_entry,
      page_table_empty = Some x86_64_page_table_empty \<rparr>,
    \<lparr> page_size = 0,
      get_entry = Some x86_64_get_entry_l2,
      entry_valid = Some x86_64_entry_valid,
      set_terminal = None,
      get_phys = Some (x86_64_get_phys_l2 INVALID_PHYS_ADDR),
      get_flags = Some x86_64_get_flags,
      set_next_pt = Some (x86_64_set_next_pt PAGE_DEFAULT_FLAGS),
      get_next_pt = Some x86_64_get_next_pt_l23,
      clear_entry = Some x86_64_clear_entry,
      page_table_empty = Some x86_64_page_table_empty \<rparr>,
    \<lparr> page_size = PAGE_SIZE,
      get_entry = Some x86_64_get_entry_l1,
      entry_valid = Some x86_64_entry_valid,
      set_terminal = Some x86_64_set_terminal_l1,
      get_phys = Some x86_64_get_phys_l1,
      get_flags = Some x86_64_get_flags,
      set_next_pt = Some (x86_64_set_next_pt PAGE_DEFAULT_FLAGS),
      get_next_pt = None,
      clear_entry = Some x86_64_clear_entry,
      page_table_empty = Some x86_64_page_table_empty \<rparr>]"

section \<open>Bit-level facts about the constants\<close>

text \<open>
  Two words are equal iff they agree on every bit. Each mask of the source file is
  described by the set of bit positions it selects; the theorems below reason about
  bit positions only.
\<close>

lemma word_eq_bits: "(a = b) = (\<forall>n. bit a n = bit b n)" for a b :: u64
  by (auto intro: bit_eqI)

lemma bit_phys_mask: "bit (0x000ffffffffff000 :: u64) n = (12 \<le> n \<and> n < 52)"
proof -
  have eq: "(0x000ffffffffff000 :: u64) = push_bit 12 (mask 40)"
    by (simp add: mask_eq_exp_minus_1 push_bit_eq_mult)
  show ?thesis unfolding eq by (auto simp add: bit_simps)
qed

lemma bit_huge_mask_l3: "bit (0x000fffffc0000000 :: u64) n = (30 \<le> n \<and> n < 52)"
proof -
  have eq: "(0x000fffffc0000000 :: u64) = push_bit 30 (mask 22)"
    by (simp add: mask_eq_exp_minus_1 push_bit_eq_mult)
  show ?thesis unfolding eq by (auto simp add: bit_simps)
qed

lemma bit_huge_mask_l2: "bit (0x000fffffffe00000 :: u64) n = (21 \<le> n \<and> n < 52)"
proof -
  have eq: "(0x000fffffffe00000 :: u64) = push_bit 21 (mask 31)"
    by (simp add: mask_eq_exp_minus_1 push_bit_eq_mult)
  show ?thesis unfolding eq by (auto simp add: bit_simps)
qed

lemma bit_offset_mask_l3: "bit (0x000000003fffffff :: u64) n = (n < 30)"
proof -
  have eq: "(0x000000003fffffff :: u64) = mask 30"
    by (simp add: mask_eq_exp_minus_1)
  show ?thesis unfolding eq by (auto simp add: bit_simps)
qed

lemma bit_offset_mask_l2: "bit (0x00000000001fffff :: u64) n = (n < 21)"
proof -
  have eq: "(0x00000000001fffff :: u64) = mask 21"
    by (simp add: mask_eq_exp_minus_1)
  show ?thesis unfolding eq by (auto simp add: bit_simps)
qed

lemma bit_offset_mask_l1: "bit (0x0000000000000fff :: u64) n = (n < 12)"
proof -
  have eq: "(0x0000000000000fff :: u64) = mask 12"
    by (simp add: mask_eq_exp_minus_1)
  show ?thesis unfolding eq by (auto simp add: bit_simps)
qed

lemma bit_flags_mask: "bit (0x7f :: u64) n = (n < 7)"
proof -
  have eq: "(0x7f :: u64) = mask 7"
    by (simp add: mask_eq_exp_minus_1)
  show ?thesis unfolding eq by (auto simp add: bit_simps)
qed

lemma bit_hugepage_flag: "bit (0x80 :: u64) n = (n = 7)"
proof -
  have eq: "(0x80 :: u64) = push_bit 7 1"
    by simp
  show ?thesis unfolding eq by (auto simp add: bit_simps simp del: push_bit_of_1)
qed

lemma and_hugepage_flag: "((w :: u64) AND 0x80 = 0) = (\<not> bit w 7)"
proof -
  have "(w AND 0x80 = 0) = (\<forall>n. \<not> (bit w n \<and> n = 7))"
    by (simp only: word_eq_bits [of _ 0] bit_and_iff bit_hugepage_flag bit_0_eq) simp
  also have "\<dots> = (\<not> bit w 7)"
    by auto
  finally show ?thesis .
qed

lemma and_1_bit0: "((w :: u64) AND 1 \<noteq> 0) = bit w 0"
  by (simp add: and_one_eq bit_0 mod_2_eq_odd)

text \<open>An address below \<open>2 ^ 52\<close> has no bit at position 52 or above.\<close>

lemma bit_below_52: "(unat p < 2 ^ 52) = (\<forall>n. bit p n \<longrightarrow> n < 52)" for p :: u64
proof -
  have "(take_bit 52 p = p) = (unat (take_bit 52 p) = unat p)"
    by (simp only: word_unat_eq_iff)
  also have "\<dots> = (unat p < 2 ^ 52)"
    by (simp only: unsigned_take_bit_eq take_bit_nat_eq_self_iff)
  finally have "(unat p < 2 ^ 52) = (take_bit 52 p = p)"
    by simp
  also have "\<dots> = (\<forall>n. bit p n \<longrightarrow> n < 52)"
    by (auto simp add: word_eq_bits bit_take_bit_iff)
  finally show ?thesis .
qed

text \<open>A multiple of \<open>2 ^ 12 = 4096\<close> has no bit below position 12.\<close>

lemma aligned_low_bits: "(unat p mod 2 ^ 12 = 0) = (\<forall>n. bit p n \<longrightarrow> 12 \<le> n)" for p :: u64
proof -
  have "unat (take_bit 12 p) = take_bit 12 (unat p)"
    by (rule unsigned_take_bit_eq)
  also have "\<dots> = unat p mod 2 ^ 12"
    by (rule take_bit_eq_mod)
  finally have "(unat p mod 2 ^ 12 = 0) = (take_bit 12 p = 0)"
    by (simp only: unat_0_iff [symmetric])
  also have "\<dots> = (\<forall>n. bit p n \<longrightarrow> 12 \<le> n)"
    by (auto simp add: word_eq_bits bit_take_bit_iff not_less)
  finally show ?thesis .
qed

text \<open>
  A page-aligned address inside the 52-bit physical range lies wholly in the address
  field, bits 12 to 51, of an entry.
\<close>

lemma page_aligned_phys:
  fixes p :: u64
  assumes "unat p mod PAGE_SIZE = 0" and "unat p < 2 ^ 52"
  shows "p AND 0x000ffffffffff000 = p"
proof -
  have lo: "\<forall>n. bit p n \<longrightarrow> 12 \<le> n"
    using assms(1) aligned_low_bits [of p] by (simp add: PAGE_SIZE_def)
  have hi: "\<forall>n. bit p n \<longrightarrow> n < 52"
    using assms(2) bit_below_52 [of p] by simp
  have "\<forall>n. bit (p AND 0x000ffffffffff000) n = bit p n"
    unfolding bit_and_iff bit_phys_mask using lo hi by blast
  then show ?thesis
    using word_eq_bits by blast
qed

text \<open>A flags value inside the mask \<open>0x7f\<close> has no bit in the address field.\<close>

lemma flags_outside_phys:
  fixes f :: u64
  assumes "f AND 0x7f = f"
  shows "f AND 0x000ffffffffff000 = 0"
proof -
  have "\<forall>n. bit f n \<longrightarrow> n < 7"
    using assms by (metis bit_and_iff bit_flags_mask)
  then have "\<forall>n. bit (f AND 0x000ffffffffff000) n = bit (0 :: u64) n"
    unfolding bit_and_iff bit_phys_mask bit_0_eq by fastforce
  then show ?thesis
    using word_eq_bits by blast
qed

section \<open>Writing a leaf entry and reading it back\<close>

text \<open>
  Claim C1. Let \<open>p\<close> be a physical address that is aligned to 4 KiB and lies in the
  52-bit physical range, and let \<open>f\<close> be a valid flags value: inside the generic flag
  mask \<open>0x7f\<close> and with the validity bit 0 set. After \<^verbatim>\<open>set_terminal(pte, p, f)\<close> at the
  leaf level, the leaf \<^verbatim>\<open>get_phys\<close> on the same entry returns \<open>p | (v & 0xFFF)\<close> for
  every virtual address \<open>v\<close>.
\<close>

theorem set_terminal_get_phys_l1_roundtrip:
  fixes p f v :: u64
  assumes "unat p mod PAGE_SIZE = 0" and "unat p < 2 ^ 52"
    and "f AND 0x7f = f" and "f AND 1 \<noteq> 0"
  shows "x86_64_get_phys_l1 (x86_64_set_terminal_l1 mem pte p f) pte v = p OR (v AND 0xFFF)"
proof -
  have p: "p AND 0x000ffffffffff000 = p"
    using assms(1,2) by (rule page_aligned_phys)
  have f: "f AND 0x000ffffffffff000 = 0"
    using assms(3) by (rule flags_outside_phys)
  have "x86_64_get_phys_l1 (x86_64_set_terminal_l1 mem pte p f) pte v
      = (((p AND 0x000ffffffffff000) OR f) AND 0x000ffffffffff000) OR (v AND 0xFFF)"
    by (simp add: x86_64_get_phys_l1_def x86_64_set_terminal_l1_def)
  also have "\<dots> = ((p OR f) AND 0x000ffffffffff000) OR (v AND 0xFFF)"
    by (simp only: p)
  also have "\<dots> = ((p AND 0x000ffffffffff000) OR (f AND 0x000ffffffffff000)) OR (v AND 0xFFF)"
    by (simp only: bit.conj_disj_distrib2)
  also have "\<dots> = p OR (v AND 0xFFF)"
    by (simp only: p f) simp
  finally show ?thesis .
qed

theorem set_terminal_get_phys_l1_roundtrip_witness:
  "x86_64_get_phys_l1 (x86_64_set_terminal_l1 (\<lambda>_. 0) 0x5008 0x2000 0x3) 0x5008 0x1234
     = 0x2234"
proof -
  have a: "unat (0x2000 :: u64) mod PAGE_SIZE = 0"
    by (simp add: PAGE_SIZE_def)
  have b: "unat (0x2000 :: u64) < 2 ^ 52"
    by simp
  have c: "(0x3 :: u64) AND 0x7f = 0x3"
    by simp
  have d: "(0x3 :: u64) AND 1 \<noteq> 0"
    by simp
  show ?thesis
    using set_terminal_get_phys_l1_roundtrip
      [OF a b c d, where mem = "\<lambda>_. 0" and pte = "0x5008" and v = "0x1234"]
    by simp
qed


section \<open>Physical-address extraction at each level\<close>

text \<open>
  The result of each \<^verbatim>\<open>get_phys\<close>, bit by bit: the low bits come from the virtual address,
  bits up to 51 from the entry, and nothing above.
\<close>

lemma get_phys_l3_bits:
  "bit (x86_64_get_phys_l3 INVALID_PHYS_ADDR mem pte virt) n =
     (if bit (mem pte) 7 then (if n < 30 then bit virt n else n < 52 \<and> bit (mem pte) n)
      else bit INVALID_PHYS_ADDR n)"
  unfolding x86_64_get_phys_l3_def X86_64_FLAG_HUGEPAGE_def and_hugepage_flag
    bit_or_iff bit_and_iff bit_huge_mask_l3 bit_offset_mask_l3 if_distrib [of "\<lambda>w. bit w n"]
  by auto

lemma get_phys_l2_bits:
  "bit (x86_64_get_phys_l2 INVALID_PHYS_ADDR mem pte virt) n =
     (if bit (mem pte) 7 then (if n < 21 then bit virt n else n < 52 \<and> bit (mem pte) n)
      else bit INVALID_PHYS_ADDR n)"
  unfolding x86_64_get_phys_l2_def X86_64_FLAG_HUGEPAGE_def and_hugepage_flag
    bit_or_iff bit_and_iff bit_huge_mask_l2 bit_offset_mask_l2 if_distrib [of "\<lambda>w. bit w n"]
  by auto

lemma get_phys_l1_bits:
  "bit (x86_64_get_phys_l1 mem pte virt) n =
     (if n < 12 then bit virt n else n < 52 \<and> bit (mem pte) n)"
  unfolding x86_64_get_phys_l1_def bit_or_iff bit_and_iff bit_phys_mask bit_offset_mask_l1
  by auto

lemma get_phys_l3_range:
  "bit (mem pte) 7 \<Longrightarrow> unat (x86_64_get_phys_l3 INVALID_PHYS_ADDR mem pte virt) < 2 ^ 52"
  unfolding bit_below_52 get_phys_l3_bits by (auto split: if_splits)

lemma get_phys_l2_range:
  "bit (mem pte) 7 \<Longrightarrow> unat (x86_64_get_phys_l2 INVALID_PHYS_ADDR mem pte virt) < 2 ^ 52"
  unfolding bit_below_52 get_phys_l2_bits by (auto split: if_splits)

lemma get_phys_l1_range:
  "unat (x86_64_get_phys_l1 mem pte virt) < 2 ^ 52"
  unfolding bit_below_52 get_phys_l1_bits by (auto split: if_splits)

lemma get_phys_l3_invalid:
  "\<not> bit (mem pte) 7 \<Longrightarrow> x86_64_get_phys_l3 INVALID_PHYS_ADDR mem pte virt = INVALID_PHYS_ADDR"
  unfolding x86_64_get_phys_l3_def X86_64_FLAG_HUGEPAGE_def and_hugepage_flag by simp

lemma get_phys_l2_invalid:
  "\<not> bit (mem pte) 7 \<Longrightarrow> x86_64_get_phys_l2 INVALID_PHYS_ADDR mem pte virt = INVALID_PHYS_ADDR"
  unfolding x86_64_get_phys_l2_def X86_64_FLAG_HUGEPAGE_def and_hugepage_flag by simp

lemma paging_get_phys:
  "map get_phys (x86_64_paging PAGE_DEFAULT_FLAGS INVALID_PHYS_ADDR) =
     [Some (page_map_get_phys_invalid INVALID_PHYS_ADDR),
      Some (x86_64_get_phys_l3 INVALID_PHYS_ADDR),
      Some (x86_64_get_phys_l2 INVALID_PHYS_ADDR),
      Some x86_64_get_phys_l1]"
  by (simp add: x86_64_paging_def)

text \<open>
  Claim C2. What \<^verbatim>\<open>get_phys\<close> does at each level of \<^verbatim>\<open>x86_64_paging\<close>, for an
  \<^verbatim>\<open>INVALID_PHYS_ADDR\<close> that is not itself an address of the 52-bit physical range:
  \<^item> at the root level it returns \<^verbatim>\<open>INVALID_PHYS_ADDR\<close> for every entry;
  \<^item> at the two intermediate levels it returns something other than
    \<^verbatim>\<open>INVALID_PHYS_ADDR\<close> exactly when bit 7 of the entry is set; the result then has
    bits 30 to 51 (1 GiB pages), respectively 21 to 51 (2 MiB pages), of the entry, the
    bits below from the virtual address, and no bit above 51; with bit 7 clear the result
    is \<^verbatim>\<open>INVALID_PHYS_ADDR\<close>;
  \<^item> at the leaf level it never returns \<^verbatim>\<open>INVALID_PHYS_ADDR\<close>: the result has bits 12 to
    51 of the entry and bits 0 to 11 of the virtual address.
\<close>

theorem get_phys_per_level:
  fixes INVALID_PHYS_ADDR :: u64
  assumes "2 ^ 52 \<le> unat INVALID_PHYS_ADDR"
  shows "map get_phys (x86_64_paging PAGE_DEFAULT_FLAGS INVALID_PHYS_ADDR) =
           [Some (page_map_get_phys_invalid INVALID_PHYS_ADDR),
            Some (x86_64_get_phys_l3 INVALID_PHYS_ADDR),
            Some (x86_64_get_phys_l2 INVALID_PHYS_ADDR),
            Some x86_64_get_phys_l1]
       \<and> page_map_get_phys_invalid INVALID_PHYS_ADDR mem pte virt = INVALID_PHYS_ADDR
       \<and> (x86_64_get_phys_l3 INVALID_PHYS_ADDR mem pte virt \<noteq> INVALID_PHYS_ADDR) = bit (mem pte) 7
       \<and> (\<forall>n. bit (x86_64_get_phys_l3 INVALID_PHYS_ADDR mem pte virt) n =
             (if bit (mem pte) 7 then (if n < 30 then bit virt n else n < 52 \<and> bit (mem pte) n)
              else bit INVALID_PHYS_ADDR n))
       \<and> (x86_64_get_phys_l2 INVALID_PHYS_ADDR mem pte virt \<noteq> INVALID_PHYS_ADDR) = bit (mem pte) 7
       \<and> (\<forall>n. bit (x86_64_get_phys_l2 INVALID_PHYS_ADDR mem pte virt) n =
             (if bit (mem pte) 7 then (if n < 21 then bit virt n else n < 52 \<and> bit (mem pte) n)
              else bit INVALID_PHYS_ADDR n))
       \<and> x86_64_get_phys_l1 mem pte virt \<noteq> INVALID_PHYS_ADDR
       \<and> (\<forall>n. bit (x86_64_get_phys_l1 mem pte virt) n =
             (if n < 12 then bit virt n else n < 52 \<and> bit (mem pte) n))"
proof -
  have l3: "(x86_64_get_phys_l3 INVALID_PHYS_ADDR mem pte virt \<noteq> INVALID_PHYS_ADDR) = bit (mem pte) 7"
  proof (cases "bit (mem pte) 7")
    case True
    from get_phys_l3_range [of mem pte INVALID_PHYS_ADDR virt] True assms
    have "x86_64_get_phys_l3 INVALID_PHYS_ADDR mem pte virt \<noteq> INVALID_PHYS_ADDR"
      by auto
    with True show ?thesis by simp
  next
    case False
    then show ?thesis by (simp add: get_phys_l3_invalid)
  qed
  have l2: "(x86_64_get_phys_l2 INVALID_PHYS_ADDR mem pte virt \<noteq> INVALID_PHYS_ADDR) = bit (mem pte) 7"
  proof (cases "bit (mem pte) 7")
    case True
    from get_phys_l2_range [of mem pte INVALID_PHYS_ADDR virt] True assms
    have "x86_64_get_phys_l2 INVALID_PHYS_ADDR mem pte virt \<noteq> INVALID_PHYS_ADDR"
      by auto
    with True show ?thesis by simp
  next
    case False
    then show ?thesis by (simp add: get_phys_l2_invalid)
  qed
  have l1: "x86_64_get_phys_l1 mem pte virt \<noteq> INVALID_PHYS_ADDR"
    using get_phys_l1_range [of mem pte virt] assms by auto
  have l4: "page_map_get_phys_invalid INVALID_PHYS_ADDR mem pte virt = INVALID_PHYS_ADDR"
    by (simp add: page_map_get_phys_invalid_def)
  show ?thesis
    using paging_get_phys l4 l3 l2 l1 get_phys_l3_bits get_phys_l2_bits get_phys_l1_bits
    by (intro conjI allI) 
qed

theorem get_phys_per_level_witness:
  "page_map_get_phys_invalid 0xFFFFFFFFFFFFFFFF (\<lambda>_. 0x40000083) 0x3008 0x40001234
     = 0xFFFFFFFFFFFFFFFF
   \<and> x86_64_get_phys_l3 0xFFFFFFFFFFFFFFFF (\<lambda>_. 0x40000083) 0x3008 0x40001234
     \<noteq> 0xFFFFFFFFFFFFFFFF
   \<and> x86_64_get_phys_l2 0xFFFFFFFFFFFFFFFF (\<lambda>_. 0x40000083) 0x3008 0x40001234
     \<noteq> 0xFFFFFFFFFFFFFFFF
   \<and> x86_64_get_phys_l1 (\<lambda>_. 0x40000083) 0x3008 0x40001234 \<noteq> 0xFFFFFFFFFFFFFFFF"
proof -
  have h: "2 ^ 52 \<le> unat (0xFFFFFFFFFFFFFFFF :: u64)"
    by simp
  have b: "bit (0x40000083 :: u64) 7"
    by (simp add: bit_iff_odd)
  note t = get_phys_per_level
    [OF h, where mem = "\<lambda>_. 0x40000083" and pte = "0x3008" and virt = "0x40001234"]
  note root = t [THEN conjunct2, THEN conjunct1]
  note l3 = t [THEN conjunct2, THEN conjunct2, THEN conjunct1]
  note l2 = t [THEN conjunct2, THEN conjunct2, THEN conjunct2, THEN conjunct2, THEN conjunct1]
  note l1 = t [THEN conjunct2, THEN conjunct2, THEN conjunct2, THEN conjunct2,
    THEN conjunct2, THEN conjunct2, THEN conjunct1]
  from l3 b have l3': "x86_64_get_phys_l3 0xFFFFFFFFFFFFFFFF (\<lambda>_. 0x40000083) 0x3008 0x40001234
     \<noteq> 0xFFFFFFFFFFFFFFFF"
    by (simp only:)
  from l2 b have l2': "x86_64_get_phys_l2 0xFFFFFFFFFFFFFFFF (\<lambda>_. 0x40000083) 0x3008 0x40001234
     \<noteq> 0xFFFFFFFFFFFFFFFF"
    by (simp only:)
  from root l3' l2' l1 show ?thesis
    by (intro conjI)
qed

section \<open>Flags of an entry\<close>

lemma get_flags_bits: "bit (x86_64_get_flags mem pte) n = (n < 7 \<and> bit (mem pte) n)"
  unfolding x86_64_get_flags_def bit_and_iff bit_flags_mask by auto

text \<open>
  Claim C3, as amended. At every level \<^verbatim>\<open>get_flags\<close> is \<^verbatim>\<open>x86_64_get_flags\<close>, which returns
  the entry masked with \<open>0x7f\<close>. That mask is bits 0 to 6: the validity bit 0 together
  with the generic flag bits 1 to 6. Bit 7, the huge-page marker, and every higher bit
  are never set in the result.
\<close>

theorem get_flags_masked:
  "map get_flags (x86_64_paging PAGE_DEFAULT_FLAGS INVALID_PHYS_ADDR) =
     [Some x86_64_get_flags, Some x86_64_get_flags, Some x86_64_get_flags, Some x86_64_get_flags]
   \<and> x86_64_get_flags mem pte = mem pte AND 0x7f
   \<and> (\<forall>n. bit (x86_64_get_flags mem pte) n = (n < 7 \<and> bit (mem pte) n))
   \<and> \<not> bit (x86_64_get_flags mem pte) 7"
proof -
  have "map get_flags (x86_64_paging PAGE_DEFAULT_FLAGS INVALID_PHYS_ADDR) =
     [Some x86_64_get_flags, Some x86_64_get_flags, Some x86_64_get_flags, Some x86_64_get_flags]"
    by (simp add: x86_64_paging_def)
  moreover have "x86_64_get_flags mem pte = mem pte AND 0x7f"
    by (simp only: x86_64_get_flags_def)
  moreover have "\<not> bit (x86_64_get_flags mem pte) 7"
    by (simp only: get_flags_bits) simp
  ultimately show ?thesis
    using get_flags_bits by blast
qed

text \<open>
  The claim as first stated has the result masked to bits 1 to 6, that is with \<open>0x7e\<close>.
  For an entry whose only set bit is the validity bit, \<^verbatim>\<open>get_flags\<close> returns 1: bit 0 is
  reported, and the result differs from the entry masked to bits 1 to 6.
\<close>

theorem get_flags_bits_1_to_6_counterexample:
  "x86_64_get_flags (\<lambda>_. 1) 0 = 1
   \<and> bit (x86_64_get_flags (\<lambda>_. 1) 0) 0
   \<and> x86_64_get_flags (\<lambda>_. 1) 0 \<noteq> 1 AND 0x7e"
  by (simp add: x86_64_get_flags_def)

section \<open>Linking and following a next-level table\<close>

lemma get_next_pt_set_next_pt:
  fixes t PAGE_DEFAULT_FLAGS :: u64
  assumes "unat t mod PAGE_SIZE = 0" and "unat t < 2 ^ 52"
    and "PAGE_DEFAULT_FLAGS AND 0x000ffffffffff000 = 0"
  shows "x86_64_set_next_pt PAGE_DEFAULT_FLAGS mem pte t pte AND 0x000ffffffffff000 = t"
proof -
  have t: "t AND 0x000ffffffffff000 = t"
    using assms(1,2) by (rule page_aligned_phys)
  have "x86_64_set_next_pt PAGE_DEFAULT_FLAGS mem pte t pte AND 0x000ffffffffff000
      = ((t AND 0x000ffffffffff000) OR PAGE_DEFAULT_FLAGS) AND 0x000ffffffffff000"
    by (simp add: x86_64_set_next_pt_def)
  also have "\<dots> = (t AND 0x000ffffffffff000) OR (PAGE_DEFAULT_FLAGS AND 0x000ffffffffff000)"
    by (simp only: t bit.conj_disj_distrib2)
  also have "\<dots> = t"
    by (simp only: t assms(3)) simp
  finally show ?thesis .
qed

lemma entry_valid_set_next_pt:
  assumes "bit PAGE_DEFAULT_FLAGS 0"
  shows "x86_64_entry_valid (x86_64_set_next_pt PAGE_DEFAULT_FLAGS mem pte t) pte"
  unfolding x86_64_entry_valid_def and_1_bit0 
  using assms by (simp add: x86_64_set_next_pt_def bit_or_iff)

text \<open>
  Claim C4. Let \<open>t\<close> be a table address that is page-aligned and lies in the 52-bit
  physical range, and let \<^verbatim>\<open>PAGE_DEFAULT_FLAGS\<close> be a flag set that contains the validity
  bit 0 and has no bit in the address field, bits 12 to 51. After \<^verbatim>\<open>set_next_pt(pte, t)\<close>
  the \<^verbatim>\<open>get_next_pt\<close> of each non-leaf level returns exactly \<open>t\<close> on that entry, and the
  entry satisfies \<^verbatim>\<open>entry_valid\<close>. The leaf level has no \<^verbatim>\<open>get_next_pt\<close>.
\<close>

theorem set_next_pt_get_next_pt_roundtrip:
  fixes t PAGE_DEFAULT_FLAGS :: u64
  assumes "unat t mod PAGE_SIZE = 0" and "unat t < 2 ^ 52"
    and "PAGE_DEFAULT_FLAGS AND 0x000ffffffffff000 = 0" and "bit PAGE_DEFAULT_FLAGS 0"
  shows "map get_next_pt (x86_64_paging PAGE_DEFAULT_FLAGS INVALID_PHYS_ADDR) =
           [Some x86_64_get_next_pt_l4, Some x86_64_get_next_pt_l23,
            Some x86_64_get_next_pt_l23, None]
       \<and> map set_next_pt (x86_64_paging PAGE_DEFAULT_FLAGS INVALID_PHYS_ADDR) =
           [Some (x86_64_set_next_pt PAGE_DEFAULT_FLAGS), Some (x86_64_set_next_pt PAGE_DEFAULT_FLAGS),
            Some (x86_64_set_next_pt PAGE_DEFAULT_FLAGS), Some (x86_64_set_next_pt PAGE_DEFAULT_FLAGS)]
       \<and> x86_64_get_next_pt_l4 (x86_64_set_next_pt PAGE_DEFAULT_FLAGS mem pte t) pte = t
       \<and> x86_64_get_next_pt_l23 (x86_64_set_next_pt PAGE_DEFAULT_FLAGS mem pte t) pte = t
       \<and> x86_64_entry_valid (x86_64_set_next_pt PAGE_DEFAULT_FLAGS mem pte t) pte"
proof -
  have "map get_next_pt (x86_64_paging PAGE_DEFAULT_FLAGS INVALID_PHYS_ADDR) =
           [Some x86_64_get_next_pt_l4, Some x86_64_get_next_pt_l23,
            Some x86_64_get_next_pt_l23, None]"
    by (simp add: x86_64_paging_def)
  moreover have "map set_next_pt (x86_64_paging PAGE_DEFAULT_FLAGS INVALID_PHYS_ADDR) =
           [Some (x86_64_set_next_pt PAGE_DEFAULT_FLAGS), Some (x86_64_set_next_pt PAGE_DEFAULT_FLAGS),
            Some (x86_64_set_next_pt PAGE_DEFAULT_FLAGS), Some (x86_64_set_next_pt PAGE_DEFAULT_FLAGS)]"
    by (simp add: x86_64_paging_def)
  moreover have "x86_64_get_next_pt_l4 (x86_64_set_next_pt PAGE_DEFAULT_FLAGS mem pte t) pte = t"
    unfolding x86_64_get_next_pt_l4_def using assms(1,2,3) by (rule get_next_pt_set_next_pt)
  moreover have "x86_64_get_next_pt_l23 (x86_64_set_next_pt PAGE_DEFAULT_FLAGS mem pte t) pte = t"
    unfolding x86_64_get_next_pt_l23_def using assms(1,2,3) by (rule get_next_pt_set_next_pt)
  moreover have "x86_64_entry_valid (x86_64_set_next_pt PAGE_DEFAULT_FLAGS mem pte t) pte"
    using assms(4) by (rule entry_valid_set_next_pt)
  ultimately show ?thesis
    by blast
qed

theorem set_next_pt_get_next_pt_roundtrip_witness:
  "x86_64_get_next_pt_l4 (x86_64_set_next_pt 0x3 (\<lambda>_. 0) 0x1008 0x7000) 0x1008 = 0x7000
   \<and> x86_64_get_next_pt_l23 (x86_64_set_next_pt 0x3 (\<lambda>_. 0) 0x1008 0x7000) 0x1008 = 0x7000
   \<and> x86_64_entry_valid (x86_64_set_next_pt 0x3 (\<lambda>_. 0) 0x1008 0x7000) 0x1008"
proof -
  have a: "unat (0x7000 :: u64) mod PAGE_SIZE = 0"
    by (simp add: PAGE_SIZE_def)
  have b: "unat (0x7000 :: u64) < 2 ^ 52"
    by simp
  have c: "(0x3 :: u64) AND 0x000ffffffffff000 = 0"
    by simp
  have d: "bit (0x3 :: u64) 0"
    by simp
  show ?thesis
    using set_next_pt_get_next_pt_roundtrip
      [OF a b c d, where mem = "\<lambda>_. 0" and pte = "0x1008"]
    by blast
qed

section \<open>Selecting the entry of a virtual address\<close>

lemma bit_index_mask: "bit (0x1ff :: u64) n = (n < 9)"
proof -
  have eq: "(0x1ff :: u64) = mask 9"
    by (simp add: mask_eq_exp_minus_1)
  show ?thesis unfolding eq by (auto simp add: bit_simps)
qed

text \<open>
  Shifting right by \<open>k\<close> and masking with \<open>0x1ff\<close> yields the 9-bit field that starts at
  bit \<open>k\<close>: the number \<open>virt div 2 ^ k mod 2 ^ 9\<close>.
\<close>

lemma index_field:
  fixes virt :: u64
  shows "drop_bit k virt AND 0x1ff = word_of_nat (unat virt div 2 ^ k mod 512)"
proof -
  have "drop_bit k virt AND 0x1ff = take_bit 9 (drop_bit k virt)"
    unfolding word_eq_bits bit_and_iff bit_index_mask bit_take_bit_iff by blast
  also have "\<dots> = word_of_nat (unat (take_bit 9 (drop_bit k virt)))"
    by simp
  also have "unat (take_bit 9 (drop_bit k virt)) = take_bit 9 (drop_bit k (unat virt))"
    by (simp only: unsigned_take_bit_eq unat_drop_bit_eq)
  also have "\<dots> = unat virt div 2 ^ k mod 512"
    by (simp add: take_bit_eq_mod drop_bit_eq_div)
  finally show ?thesis .
qed

text \<open>
  Claim C5. For every table and every virtual address, \<^verbatim>\<open>get_entry\<close> of each level returns
  the address of the table entry whose index is a 9-bit field of the virtual address:
  bits 39 to 47 at the root level, bits 30 to 38 and 21 to 29 at the two intermediate
  levels, bits 12 to 20 at the leaf level. Every index is at most 511.
\<close>

theorem get_entry_index:
  "map get_entry (x86_64_paging PAGE_DEFAULT_FLAGS INVALID_PHYS_ADDR) =
     [Some x86_64_get_entry_l4, Some x86_64_get_entry_l3,
      Some x86_64_get_entry_l2, Some x86_64_get_entry_l1]
   \<and> x86_64_get_entry_l4 page_table virt
       = page_table + 8 * word_of_nat (unat virt div 2 ^ 39 mod 512)
   \<and> x86_64_get_entry_l3 page_table virt
       = page_table + 8 * word_of_nat (unat virt div 2 ^ 30 mod 512)
   \<and> x86_64_get_entry_l2 page_table virt
       = page_table + 8 * word_of_nat (unat virt div 2 ^ 21 mod 512)
   \<and> x86_64_get_entry_l1 page_table virt
       = page_table + 8 * word_of_nat (unat virt div 2 ^ 12 mod 512)
   \<and> unat virt div 2 ^ 39 mod 512 \<le> 511
   \<and> unat virt div 2 ^ 30 mod 512 \<le> 511
   \<and> unat virt div 2 ^ 21 mod 512 \<le> 511
   \<and> unat virt div 2 ^ 12 mod 512 \<le> 511"
proof -
  have "map get_entry (x86_64_paging PAGE_DEFAULT_FLAGS INVALID_PHYS_ADDR) =
     [Some x86_64_get_entry_l4, Some x86_64_get_entry_l3,
      Some x86_64_get_entry_l2, Some x86_64_get_entry_l1]"
    by (simp add: x86_64_paging_def)
  moreover have "x86_64_get_entry_l4 page_table virt
       = page_table + 8 * word_of_nat (unat virt div 2 ^ 39 mod 512)"
    by (simp only: x86_64_get_entry_l4_def index_field)
  moreover have "x86_64_get_entry_l3 page_table virt
       = page_table + 8 * word_of_nat (unat virt div 2 ^ 30 mod 512)"
    by (simp only: x86_64_get_entry_l3_def index_field)
  moreover have "x86_64_get_entry_l2 page_table virt
       = page_table + 8 * word_of_nat (unat virt div 2 ^ 21 mod 512)"
    by (simp only: x86_64_get_entry_l2_def index_field)
  moreover have "x86_64_get_entry_l1 page_table virt
       = page_table + 8 * word_of_nat (unat virt div 2 ^ 12 mod 512)"
    by (simp only: x86_64_get_entry_l1_def index_field)
  moreover have "m mod 512 \<le> 511" for m :: nat
    by simp
  ultimately show ?thesis
    by blast
qed

section \<open>Validity, clearing and emptiness\<close>

text \<open>
  The loop started at index \<open>n\<close> with pointer \<open>pte\<close> returns true iff none of the
  entries it still has to visit is valid.
\<close>

lemma page_table_empty_loop_iff:
  "page_table_empty_loop mem n pte =
     (\<forall>k. n \<le> k \<and> k < 512 \<longrightarrow> \<not> x86_64_entry_valid mem (pte + 8 * word_of_nat (k - n)))"
proof (induction mem n pte rule: page_table_empty_loop.induct)
  case (1 mem n pte)
  show ?case
  proof (cases "n < 512")
    case False
    then show ?thesis
      by (subst page_table_empty_loop.simps) (auto simp add: PAGE_SIZE_def)
  next
    case True
    show ?thesis
    proof (cases "x86_64_entry_valid mem pte")
      case v: True
      have "page_table_empty_loop mem n pte = False"
        using True v by (subst page_table_empty_loop.simps) (simp add: PAGE_SIZE_def)
      moreover have "\<not> (\<forall>k. n \<le> k \<and> k < 512 \<longrightarrow>
          \<not> x86_64_entry_valid mem (pte + 8 * word_of_nat (k - n)))"
        using True v by (auto intro!: exI [of _ n])
      ultimately show ?thesis by blast
    next
      case nv: False
      have step: "page_table_empty_loop mem n pte = page_table_empty_loop mem (Suc n) (pte + 8)"
        using True nv by (subst page_table_empty_loop.simps) (simp add: PAGE_SIZE_def)
      have IH: "page_table_empty_loop mem (Suc n) (pte + 8) =
          (\<forall>k. Suc n \<le> k \<and> k < 512 \<longrightarrow>
             \<not> x86_64_entry_valid mem (pte + 8 + 8 * word_of_nat (k - Suc n)))"
        using "1.IH" True nv by (simp add: PAGE_SIZE_def)
      have addr: "pte + 8 + 8 * word_of_nat (k - Suc n) = pte + 8 * word_of_nat (k - n)"
        if "Suc n \<le> k" for k
      proof -
        from that have "k - n = Suc (k - Suc n)" by simp
        then show ?thesis by (simp add: algebra_simps)
      qed
      have "(\<forall>k. Suc n \<le> k \<and> k < 512 \<longrightarrow>
             \<not> x86_64_entry_valid mem (pte + 8 + 8 * word_of_nat (k - Suc n)))
          = (\<forall>k. n \<le> k \<and> k < 512 \<longrightarrow>
             \<not> x86_64_entry_valid mem (pte + 8 * word_of_nat (k - n)))" (is "?L = ?R")
      proof
        assume L: ?L
        show ?R
        proof (intro allI impI)
          fix k assume k: "n \<le> k \<and> k < 512"
          show "\<not> x86_64_entry_valid mem (pte + 8 * word_of_nat (k - n))"
          proof (cases "k = n")
            case True
            with nv show ?thesis by simp
          next
            case False
            with k have "Suc n \<le> k" by simp
            with L k addr [of k] show ?thesis by metis
          qed
        qed
      next
        assume R: ?R
        show ?L
        proof (intro allI impI)
          fix k assume k: "Suc n \<le> k \<and> k < 512"
          then have "n \<le> k \<and> k < 512" by simp
          with R have "\<not> x86_64_entry_valid mem (pte + 8 * word_of_nat (k - n))" by blast
          with k addr [of k] show "\<not> x86_64_entry_valid mem (pte + 8 + 8 * word_of_nat (k - Suc n))"
            by simp
        qed
      qed
      with step IH show ?thesis by simp
    qed
  qed
qed

lemma page_table_empty_iff:
  "x86_64_page_table_empty mem page_table =
     (\<forall>n<512. \<not> x86_64_entry_valid mem (page_table + 8 * word_of_nat n))"
  unfolding x86_64_page_table_empty_def page_table_empty_loop_iff by simp

text \<open>
  Claim C6. \<^verbatim>\<open>entry_valid\<close> holds exactly when bit 0 of the entry is set. \<^verbatim>\<open>clear_entry\<close>
  sets the entry to zero; afterwards \<^verbatim>\<open>entry_valid\<close> is false on it and \<^verbatim>\<open>get_flags\<close>
  returns 0. \<^verbatim>\<open>page_table_empty\<close> returns true exactly when each of the 512 entries of
  the table fails \<^verbatim>\<open>entry_valid\<close>.
\<close>

theorem entry_valid_clear_entry_page_table_empty:
  "x86_64_entry_valid mem pte = bit (mem pte) 0
   \<and> x86_64_clear_entry mem pte pte = 0
   \<and> \<not> x86_64_entry_valid (x86_64_clear_entry mem pte) pte
   \<and> x86_64_get_flags (x86_64_clear_entry mem pte) pte = 0
   \<and> x86_64_page_table_empty mem page_table =
       (\<forall>n<512. \<not> x86_64_entry_valid mem (page_table + 8 * word_of_nat n))"
proof -
  have "x86_64_entry_valid mem pte = bit (mem pte) 0"
    by (simp only: x86_64_entry_valid_def and_1_bit0)
  moreover have "x86_64_clear_entry mem pte pte = 0"
    by (simp add: x86_64_clear_entry_def)
  moreover have "\<not> x86_64_entry_valid (x86_64_clear_entry mem pte) pte"
    by (simp add: x86_64_entry_valid_def x86_64_clear_entry_def)
  moreover have "x86_64_get_flags (x86_64_clear_entry mem pte) pte = 0"
    by (simp add: x86_64_get_flags_def x86_64_clear_entry_def)
  ultimately show ?thesis
    using page_table_empty_iff by blast
qed

theorem entry_valid_clear_entry_page_table_empty_witness:
  "x86_64_page_table_empty (\<lambda>_. 0) 0x2000
   \<and> \<not> x86_64_page_table_empty (\<lambda>a. if a = 0x2ff8 then 1 else 0) 0x2000"
proof -
  have e: "\<forall>n<512. \<not> x86_64_entry_valid (\<lambda>_. 0) (0x2000 + 8 * word_of_nat n)"
    by (simp add: x86_64_entry_valid_def)
  have "(511 :: nat) < 512
      \<and> x86_64_entry_valid (\<lambda>a. if a = 0x2ff8 then 1 else 0) (0x2000 + 8 * word_of_nat 511)"
    by (simp add: x86_64_entry_valid_def)
  then have ne: "\<not> (\<forall>n<512. \<not> x86_64_entry_valid (\<lambda>a. if a = 0x2ff8 then 1 else 0)
      (0x2000 + 8 * word_of_nat n))"
    by blast
  show ?thesis
    using entry_valid_clear_entry_page_table_empty
        [where mem = "\<lambda>_. 0" and page_table = "0x2000"]
      entry_valid_clear_entry_page_table_empty
        [where mem = "\<lambda>a. if a = 0x2ff8 then 1 else 0" and page_table = "0x2000"]
      e ne
    by blast
qed

section \<open>The array of level descriptors\<close>

text \<open>
  Claim C7. The array \<^verbatim>\<open>x86_64_paging\<close> has four elements, root level first.
  \<^verbatim>\<open>page_size\<close> is zero at the three non-leaf levels and \<^verbatim>\<open>PAGE_SIZE\<close>, 4 KiB, at the leaf
  level. \<^verbatim>\<open>set_terminal\<close> is present at the leaf level only. \<^verbatim>\<open>get_next_pt\<close> is present at
  the three non-leaf levels and absent at the leaf level. \<^verbatim>\<open>get_entry\<close>, \<^verbatim>\<open>entry_valid\<close>,
  \<^verbatim>\<open>get_flags\<close>, \<^verbatim>\<open>clear_entry\<close> and \<^verbatim>\<open>page_table_empty\<close> are present at every level.
\<close>

theorem paging_levels:
  "length (x86_64_paging PAGE_DEFAULT_FLAGS INVALID_PHYS_ADDR) = 4
   \<and> map page_size (x86_64_paging PAGE_DEFAULT_FLAGS INVALID_PHYS_ADDR) = [0, 0, 0, PAGE_SIZE]
   \<and> PAGE_SIZE = 4096
   \<and> map set_terminal (x86_64_paging PAGE_DEFAULT_FLAGS INVALID_PHYS_ADDR) =
        [None, None, None, Some x86_64_set_terminal_l1]
   \<and> map get_next_pt (x86_64_paging PAGE_DEFAULT_FLAGS INVALID_PHYS_ADDR) =
        [Some x86_64_get_next_pt_l4, Some x86_64_get_next_pt_l23,
         Some x86_64_get_next_pt_l23, None]
   \<and> map get_entry (x86_64_paging PAGE_DEFAULT_FLAGS INVALID_PHYS_ADDR) =
        [Some x86_64_get_entry_l4, Some x86_64_get_entry_l3,
         Some x86_64_get_entry_l2, Some x86_64_get_entry_l1]
   \<and> map entry_valid (x86_64_paging PAGE_DEFAULT_FLAGS INVALID_PHYS_ADDR) =
        [Some x86_64_entry_valid, Some x86_64_entry_valid,
         Some x86_64_entry_valid, Some x86_64_entry_valid]
   \<and> map get_flags (x86_64_paging PAGE_DEFAULT_FLAGS INVALID_PHYS_ADDR) =
        [Some x86_64_get_flags, Some x86_64_get_flags,
         Some x86_64_get_flags, Some x86_64_get_flags]
   \<and> map clear_entry (x86_64_paging PAGE_DEFAULT_FLAGS INVALID_PHYS_ADDR) =
        [Some x86_64_clear_entry, Some x86_64_clear_entry,
         Some x86_64_clear_entry, Some x86_64_clear_entry]
   \<and> map page_table_empty (x86_64_paging PAGE_DEFAULT_FLAGS INVALID_PHYS_ADDR) =
        [Some x86_64_page_table_empty, Some x86_64_page_table_empty,
         Some x86_64_page_table_empty, Some x86_64_page_table_empty]"
  by (simp add: x86_64_paging_def PAGE_SIZE_def)

section \<open>Physical-address extraction does not look at the validity bit\<close>

text \<open>Flipping bit 0 of a word changes no other bit.\<close>

lemma bit_flip_valid: "bit (w XOR 1) n = (if n = 0 then \<not> bit w 0 else bit w n)" for w :: u64
  by (auto simp add: bit_xor_iff bit_1_iff)

lemma get_phys_l1_ignores_valid:
  "x86_64_get_phys_l1 (mem(pte := mem pte XOR 1)) pte virt = x86_64_get_phys_l1 mem pte virt"
  unfolding word_eq_bits get_phys_l1_bits by (simp add: bit_flip_valid)

lemma get_phys_l2_ignores_valid:
  "x86_64_get_phys_l2 INVALID_PHYS_ADDR (mem(pte := mem pte XOR 1)) pte virt
     = x86_64_get_phys_l2 INVALID_PHYS_ADDR mem pte virt"
  unfolding word_eq_bits get_phys_l2_bits by (simp add: bit_flip_valid)

lemma get_phys_l3_ignores_valid:
  "x86_64_get_phys_l3 INVALID_PHYS_ADDR (mem(pte := mem pte XOR 1)) pte virt
     = x86_64_get_phys_l3 INVALID_PHYS_ADDR mem pte virt"
  unfolding word_eq_bits get_phys_l3_bits by (simp add: bit_flip_valid)

lemma get_phys_l3_huge:
  "bit (mem pte) 7 \<Longrightarrow> x86_64_get_phys_l3 INVALID_PHYS_ADDR mem pte virt
     = (mem pte AND 0x000fffffc0000000) OR (virt AND 0x000000003fffffff)"
  unfolding x86_64_get_phys_l3_def X86_64_FLAG_HUGEPAGE_def and_hugepage_flag by simp

lemma get_phys_l2_huge:
  "bit (mem pte) 7 \<Longrightarrow> x86_64_get_phys_l2 INVALID_PHYS_ADDR mem pte virt
     = (mem pte AND 0x000fffffffe00000) OR (virt AND 0x00000000001fffff)"
  unfolding x86_64_get_phys_l2_def X86_64_FLAG_HUGEPAGE_def and_hugepage_flag by simp

lemma outside_range_neq:
  fixes a b :: u64
  assumes "unat a < 2 ^ 52" and "2 ^ 52 \<le> unat b"
  shows "a \<noteq> b"
  using assms by auto

text \<open>
  Claim C9. No \<^verbatim>\<open>get_phys\<close> of the file tests the validity bit: flipping bit 0 of the
  entry changes the result at none of the three levels. At the leaf level a cleared entry,
  which is not valid, still yields \<open>virt & 0xFFF\<close>, which is not \<^verbatim>\<open>INVALID_PHYS_ADDR\<close>. At
  the two intermediate levels an entry that is not valid but has bit 7 set still decodes
  to a physical address other than \<^verbatim>\<open>INVALID_PHYS_ADDR\<close>. As in C2,
  \<^verbatim>\<open>INVALID_PHYS_ADDR\<close> is taken to lie outside the 52-bit physical range.
\<close>

theorem get_phys_ignores_validity:
  fixes INVALID_PHYS_ADDR :: u64
  assumes "2 ^ 52 \<le> unat INVALID_PHYS_ADDR"
  shows "x86_64_get_phys_l1 (mem(pte := mem pte XOR 1)) pte virt
           = x86_64_get_phys_l1 mem pte virt
       \<and> x86_64_get_phys_l2 INVALID_PHYS_ADDR (mem(pte := mem pte XOR 1)) pte virt
           = x86_64_get_phys_l2 INVALID_PHYS_ADDR mem pte virt
       \<and> x86_64_get_phys_l3 INVALID_PHYS_ADDR (mem(pte := mem pte XOR 1)) pte virt
           = x86_64_get_phys_l3 INVALID_PHYS_ADDR mem pte virt
       \<and> \<not> x86_64_entry_valid (x86_64_clear_entry mem pte) pte
       \<and> x86_64_get_phys_l1 (x86_64_clear_entry mem pte) pte virt = virt AND 0xFFF
       \<and> x86_64_get_phys_l1 (x86_64_clear_entry mem pte) pte virt \<noteq> INVALID_PHYS_ADDR
       \<and> (\<not> x86_64_entry_valid mem pte \<and> bit (mem pte) 7 \<longrightarrow>
            x86_64_get_phys_l3 INVALID_PHYS_ADDR mem pte virt
              = (mem pte AND 0x000fffffc0000000) OR (virt AND 0x000000003fffffff)
          \<and> x86_64_get_phys_l3 INVALID_PHYS_ADDR mem pte virt \<noteq> INVALID_PHYS_ADDR
          \<and> x86_64_get_phys_l2 INVALID_PHYS_ADDR mem pte virt
              = (mem pte AND 0x000fffffffe00000) OR (virt AND 0x00000000001fffff)
          \<and> x86_64_get_phys_l2 INVALID_PHYS_ADDR mem pte virt \<noteq> INVALID_PHYS_ADDR)"
proof -
  have c1: "\<not> x86_64_entry_valid (x86_64_clear_entry mem pte) pte"
    by (simp add: x86_64_entry_valid_def x86_64_clear_entry_def)
  have c2: "x86_64_get_phys_l1 (x86_64_clear_entry mem pte) pte virt = virt AND 0xFFF"
    by (simp add: x86_64_get_phys_l1_def x86_64_clear_entry_def)
  have c3: "x86_64_get_phys_l1 (x86_64_clear_entry mem pte) pte virt \<noteq> INVALID_PHYS_ADDR"
    using get_phys_l1_range assms by (rule outside_range_neq)
  have h3: "x86_64_get_phys_l3 INVALID_PHYS_ADDR mem pte virt \<noteq> INVALID_PHYS_ADDR"
    if "bit (mem pte) 7"
    using get_phys_l3_range [of mem pte INVALID_PHYS_ADDR virt, OF that] assms
    by (rule outside_range_neq)
  have h2: "x86_64_get_phys_l2 INVALID_PHYS_ADDR mem pte virt \<noteq> INVALID_PHYS_ADDR"
    if "bit (mem pte) 7"
    using get_phys_l2_range [of mem pte INVALID_PHYS_ADDR virt, OF that] assms
    by (rule outside_range_neq)
  show ?thesis
    using get_phys_l1_ignores_valid get_phys_l2_ignores_valid get_phys_l3_ignores_valid
      c1 c2 c3 h3 h2 get_phys_l3_huge get_phys_l2_huge
    by (intro conjI impI) blast+
qed

theorem get_phys_ignores_validity_witness:
  "\<not> x86_64_entry_valid (\<lambda>_. 0x40000080) 0x3008
   \<and> x86_64_get_phys_l3 0xFFFFFFFFFFFFFFFF (\<lambda>_. 0x40000080) 0x3008 0x40001234 = 0x40001234
   \<and> x86_64_get_phys_l2 0xFFFFFFFFFFFFFFFF (\<lambda>_. 0x40000080) 0x3008 0x40001234 = 0x40001234
   \<and> x86_64_get_phys_l1 (x86_64_clear_entry (\<lambda>_. 0x40000080) 0x3008) 0x3008 0x40001234 = 0x234"
proof -
  have h: "2 ^ 52 \<le> unat (0xFFFFFFFFFFFFFFFF :: u64)"
    by simp
  have nv: "\<not> x86_64_entry_valid (\<lambda>_. 0x40000080) 0x3008"
    by (simp add: x86_64_entry_valid_def)
  have b: "bit (0x40000080 :: u64) 7"
    by (simp add: bit_iff_odd)
  have v: "((0x40000080 :: u64) AND 0x000fffffc0000000) OR (0x40001234 AND 0x000000003fffffff)
             = 0x40001234"
      "((0x40000080 :: u64) AND 0x000fffffffe00000) OR (0x40001234 AND 0x00000000001fffff)
             = 0x40001234"
      "(0x40001234 :: u64) AND 0xFFF = 0x234"
    by simp_all
  show ?thesis
    using get_phys_ignores_validity
        [OF h, where mem = "\<lambda>_. 0x40000080" and pte = "0x3008" and virt = "0x40001234"]
      nv b v
    by simp
qed

section \<open>Flags given to the leaf entry are not masked\<close>

text \<open>
  The entry written by \<^verbatim>\<open>set_terminal\<close>, bit by bit: every bit of the flags, and bits 12
  to 51 of the physical address.
\<close>

lemma set_terminal_bits:
  "bit (x86_64_set_terminal_l1 mem pte phys flags pte) n =
     (bit flags n \<or> (12 \<le> n \<and> n < 52 \<and> bit phys n))"
  unfolding x86_64_set_terminal_l1_def fun_upd_same bit_or_iff bit_and_iff bit_phys_mask
  by blast

lemma set_terminal_keeps_flags:
  "x86_64_set_terminal_l1 mem pte phys flags pte AND flags = flags"
  unfolding word_eq_bits bit_and_iff set_terminal_bits by blast

text \<open>
  For one page-aligned address \<open>p\<close> of the physical range, reading back yields
  \<open>p | (v & 0xFFF)\<close> iff every flag bit in positions 12 to 51 is also a bit of \<open>p\<close>.
\<close>

lemma roundtrip_iff:
  fixes p flags v :: u64
  assumes "unat p mod PAGE_SIZE = 0 \<and> unat p < 2 ^ 52"
  shows "(x86_64_get_phys_l1 (x86_64_set_terminal_l1 mem pte p flags) pte v = p OR (v AND 0xFFF))
       = (flags AND 0x000ffffffffff000 AND NOT p = 0)"
proof -
  have lo: "\<forall>n. bit p n \<longrightarrow> 12 \<le> n"
    using assms aligned_low_bits [of p] by (simp add: PAGE_SIZE_def)
  have hi: "\<forall>n. bit p n \<longrightarrow> n < 52"
    using assms bit_below_52 [of p] by simp
  have L: "(x86_64_get_phys_l1 (x86_64_set_terminal_l1 mem pte p flags) pte v = p OR (v AND 0xFFF))
      = (\<forall>n. (if n < 12 then bit v n else n < 52 \<and> (bit flags n \<or> (12 \<le> n \<and> n < 52 \<and> bit p n)))
            = (bit p n \<or> (bit v n \<and> n < 12)))"
    unfolding word_eq_bits get_phys_l1_bits set_terminal_bits bit_or_iff bit_and_iff
      bit_offset_mask_l1 ..
  have R: "(flags AND 0x000ffffffffff000 AND NOT p = 0)
      = (\<forall>n. \<not> (bit flags n \<and> (12 \<le> n \<and> n < 52) \<and> \<not> bit p n))"
    unfolding word_eq_bits bit_and_iff bit_not_iff bit_phys_mask bit_0_eq
    by (auto dest: bit_imp_le_length)
  have "((if n < 12 then bit v n
            else n < 52 \<and> (bit flags n \<or> (12 \<le> n \<and> n < 52 \<and> bit p n)))
          = (bit p n \<or> (bit v n \<and> n < 12)))
      = (\<not> (bit flags n \<and> (12 \<le> n \<and> n < 52) \<and> \<not> bit p n))" for n
  proof (cases "n < 12")
    case True
    with lo show ?thesis by auto
  next
    case False
    with hi show ?thesis by auto
  qed
  then show ?thesis
    unfolding L R by simp
qed


lemma roundtrip_all_iff:
  fixes flags v :: u64
  shows "(\<forall>p. unat p mod PAGE_SIZE = 0 \<and> unat p < 2 ^ 52 \<longrightarrow>
            x86_64_get_phys_l1 (x86_64_set_terminal_l1 mem pte p flags) pte v = p OR (v AND 0xFFF))
       = (flags AND 0x000ffffffffff000 = 0)" (is "?L = ?R")
proof
  assume L: ?L
  have z: "unat (0 :: u64) mod PAGE_SIZE = 0 \<and> unat (0 :: u64) < 2 ^ 52"
    by simp
  have "x86_64_get_phys_l1 (x86_64_set_terminal_l1 mem pte 0 flags) pte v
      = 0 OR (v AND 0xFFF)"
    using z by (rule L [rule_format])
  then have "flags AND 0x000ffffffffff000 AND NOT 0 = 0"
    by (simp only: roundtrip_iff [OF z])
  then show ?R
    by simp
next
  assume R: ?R
  show ?L
  proof (intro allI impI)
    fix p :: u64
    assume p: "unat p mod PAGE_SIZE = 0 \<and> unat p < 2 ^ 52"
    from R have "flags AND 0x000ffffffffff000 AND NOT p = 0"
      by (simp only: and.assoc [symmetric]) simp
    then show "x86_64_get_phys_l1 (x86_64_set_terminal_l1 mem pte p flags) pte v
        = p OR (v AND 0xFFF)"
      by (simp only: roundtrip_iff [OF p])
  qed
qed

text \<open>
  Claim C10, as amended. \<^verbatim>\<open>set_terminal\<close> at the leaf masks the physical address to bits 12
  to 51 and applies no mask to the flags: every bit of the flags, bit 7 and the bits at
  position 12 and above included, is stored in the entry. For a 4 KiB-aligned address \<open>p\<close>
  of the 52-bit physical range, writing and reading back yields \<open>p | (v & 0xFFF)\<close> exactly
  when no flag bit in positions 12 to 51 is missing from \<open>p\<close>; so it does for all such
  \<open>p\<close> exactly when the flags have no bit in positions 12 to 51. Flag bits 52 to 63 are
  stored as well, but \<^verbatim>\<open>get_phys\<close> masks them off.
\<close>

theorem set_terminal_flags_unmasked:
  "(\<forall>n. bit (x86_64_set_terminal_l1 mem pte phys flags pte) n =
         (bit flags n \<or> (12 \<le> n \<and> n < 52 \<and> bit phys n)))
   \<and> x86_64_set_terminal_l1 mem pte phys flags pte AND flags = flags
   \<and> (unat p mod PAGE_SIZE = 0 \<and> unat p < 2 ^ 52 \<longrightarrow>
        (x86_64_get_phys_l1 (x86_64_set_terminal_l1 mem pte p flags) pte v = p OR (v AND 0xFFF))
          = (flags AND 0x000ffffffffff000 AND NOT p = 0))
   \<and> (\<forall>p. unat p mod PAGE_SIZE = 0 \<and> unat p < 2 ^ 52 \<longrightarrow>
            x86_64_get_phys_l1 (x86_64_set_terminal_l1 mem pte p flags) pte v = p OR (v AND 0xFFF))
       = (flags AND 0x000ffffffffff000 = 0)"
proof (intro conjI allI impI)
  fix n
  show "bit (x86_64_set_terminal_l1 mem pte phys flags pte) n =
         (bit flags n \<or> (12 \<le> n \<and> n < 52 \<and> bit phys n))"
    by (rule set_terminal_bits)
next
  show "x86_64_set_terminal_l1 mem pte phys flags pte AND flags = flags"
    by (rule set_terminal_keeps_flags)
next
  assume "unat p mod PAGE_SIZE = 0 \<and> unat p < 2 ^ 52"
  then show "(x86_64_get_phys_l1 (x86_64_set_terminal_l1 mem pte p flags) pte v = p OR (v AND 0xFFF))
          = (flags AND 0x000ffffffffff000 AND NOT p = 0)"
    by (rule roundtrip_iff)
next
  show "(\<forall>p. unat p mod PAGE_SIZE = 0 \<and> unat p < 2 ^ 52 \<longrightarrow>
            x86_64_get_phys_l1 (x86_64_set_terminal_l1 mem pte p flags) pte v = p OR (v AND 0xFFF))
       = (flags AND 0x000ffffffffff000 = 0)"
    by (rule roundtrip_all_iff)
qed

theorem set_terminal_flags_unmasked_witness:
  "x86_64_get_phys_l1 (x86_64_set_terminal_l1 (\<lambda>_. 0) 0x5008 0x2000 0x1003) 0x5008 0x1234
     \<noteq> 0x2000 OR (0x1234 AND 0xFFF)"
proof -
  have p: "unat (0x2000 :: u64) mod PAGE_SIZE = 0 \<and> unat (0x2000 :: u64) < 2 ^ 52"
    by (simp add: PAGE_SIZE_def)
  have f: "(0x1003 :: u64) AND 0x000ffffffffff000 AND NOT 0x2000 \<noteq> 0"
    by simp
  note t = set_terminal_flags_unmasked
    [where mem = "\<lambda>_. 0" and pte = "0x5008" and p = "0x2000" and flags = "0x1003"
       and v = "0x1234"]
  note r = t [THEN conjunct2, THEN conjunct2, THEN conjunct1, rule_format, OF p]
  from r f show ?thesis
    by simp
qed

text \<open>
  The claim as first stated lets the round trip hold only for flags confined to bits 0 to
  11. With flags \<open>0x8000000000000003\<close>, which have bit 63 set, the round trip still holds.
\<close>

theorem roundtrip_needs_flags_in_low_bits_counterexample:
  "x86_64_get_phys_l1 (x86_64_set_terminal_l1 (\<lambda>_. 0) 0x5008 0x2000 0x8000000000000003)
       0x5008 0x1234 = 0x2000 OR (0x1234 AND 0xFFF)
   \<and> (0x8000000000000003 :: u64) AND NOT 0xFFF \<noteq> 0"
  by (simp add: x86_64_get_phys_l1_def x86_64_set_terminal_l1_def)

end
